theory Spec2Isabelle
  imports Complex_Main
begin

section \<open>JavaScript numbers and the number parsers used by the HTTP endpoint\<close>

text \<open>
  A JavaScript number is modelled as an exact real, the two infinities, or NaN.
  Rounding to IEEE doubles and the sign of zero are not modelled; none of the
  properties below depends on them.
\<close>

datatype jsnum = NaN | NegInf | Fin real | PosInf

fun isNaN :: "jsnum \<Rightarrow> bool" where
  "isNaN NaN = True"
| "isNaN _ = False"

text \<open>The order of the non-NaN numbers.\<close>

fun js_le :: "jsnum \<Rightarrow> jsnum \<Rightarrow> bool" where
  "js_le NaN _ = False"
| "js_le _ NaN = False"
| "js_le NegInf _ = True"
| "js_le _ PosInf = True"
| "js_le (Fin x) (Fin y) = (x \<le> y)"
| "js_le _ _ = False"

text \<open>\<^verbatim>\<open>Math.min\<close> and \<^verbatim>\<open>Math.max\<close>: NaN as soon as one argument is NaN.\<close>

definition Math_min :: "jsnum \<Rightarrow> jsnum \<Rightarrow> jsnum" where
  "Math_min a b = (if isNaN a \<or> isNaN b then NaN else if js_le a b then a else b)"

definition Math_max :: "jsnum \<Rightarrow> jsnum \<Rightarrow> jsnum" where
  "Math_max a b = (if isNaN a \<or> isNaN b then NaN else if js_le a b then b else a)"

text \<open>\<^verbatim>\<open>x || d\<close> on numbers: the falsy numbers are 0 and NaN.\<close>

definition num_or :: "jsnum \<Rightarrow> jsnum \<Rightarrow> jsnum" where
  "num_or x d = (if x = NaN \<or> x = Fin 0 then d else x)"

text \<open>A finite number between two real bounds.\<close>

fun inRange :: "real \<Rightarrow> real \<Rightarrow> jsnum \<Rightarrow> bool" where
  "inRange lo hi (Fin x) = (lo \<le> x \<and> x \<le> hi)"
| "inRange lo hi _ = False"

definition isWhiteSpace :: "char \<Rightarrow> bool" where
  "isWhiteSpace c = (of_char c \<in> {9, 10, 11, 12, 13, 32 :: nat})"

definition isDigit :: "char \<Rightarrow> bool" where
  "isDigit c = (48 \<le> (of_char c :: nat) \<and> (of_char c :: nat) \<le> 57)"

definition digitVal :: "char \<Rightarrow> nat" where
  "digitVal c = of_char c - 48"

definition decimalValue :: "string \<Rightarrow> nat" where
  "decimalValue ds = foldl (\<lambda>acc c. 10 * acc + digitVal c) 0 ds"

text \<open>An optional leading sign: the sign and the rest of the string.\<close>

fun takeSign :: "string \<Rightarrow> real \<times> string" where
  "takeSign [] = (1, [])"
| "takeSign (c # cs) =
     (if c = CHR ''-'' then (- 1, cs) else if c = CHR ''+'' then (1, cs) else (1, c # cs))"

text \<open>
  \<^verbatim>\<open>parseInt(s, 10)\<close>: skip leading white space, read an optional sign, then the
  longest run of decimal digits; NaN when there is no digit. It never throws. Only the
  ASCII white space characters are modelled, and a digit string too long for a double
  gives its exact value where JavaScript gives Infinity.
\<close>

definition parseInt :: "string \<Rightarrow> jsnum" where
  "parseInt inputString =
     (let (sign, S) = takeSign (dropWhile isWhiteSpace inputString);
          Z = takeWhile isDigit S
      in if Z = [] then NaN else Fin (sign * real (decimalValue Z)))"

text \<open>The exponent part of a decimal literal, 0 when there is none.\<close>

fun exponentPart :: "string \<Rightarrow> int" where
  "exponentPart [] = 0"
| "exponentPart (c # cs) =
     (if c = CHR ''e'' \<or> c = CHR ''E'' then
        (let (esign, ds) = takeSign cs; Z = takeWhile isDigit ds
         in if Z = [] then 0
            else if esign < 0 then - int (decimalValue Z) else int (decimalValue Z))
      else 0)"

definition scale10 :: "real \<Rightarrow> int \<Rightarrow> real" where
  "scale10 m e = (if 0 \<le> e then m * 10 ^ nat e else m / 10 ^ nat (- e))"

text \<open>
  \<^verbatim>\<open>parseFloat(s)\<close>: skip leading white space, read the longest prefix that is
  a decimal literal (sign, \<^verbatim>\<open>Infinity\<close>, or digits with an optional fraction and
  exponent); NaN when there is none. It never throws.
\<close>

definition parseFloat :: "string \<Rightarrow> jsnum" where
  "parseFloat inputString =
     (let (sign, S) = takeSign (dropWhile isWhiteSpace inputString)
      in if take 8 S = ''Infinity'' then (if sign < 0 then NegInf else PosInf)
         else
           (let intDigits = takeWhile isDigit S;
                R1 = dropWhile isDigit S;
                (fracDigits, R2) =
                  (case R1 of
                     [] \<Rightarrow> ([], R1)
                   | c # cs \<Rightarrow>
                       if c = CHR ''.'' then (takeWhile isDigit cs, dropWhile isDigit cs)
                       else ([], R1))
            in if intDigits = [] \<and> fracDigits = [] then NaN
               else Fin (sign * scale10
                      (real (decimalValue intDigits)
                         + real (decimalValue fracDigits) / 10 ^ length fracDigits)
                      (exponentPart R2))))"

section \<open>The avatar state store (src/index.ts)\<close>

datatype Direction = DirRight | DirLeft

record Expression =
  name :: string
  imageUrl :: string
  description :: string
  useCases :: string

record AvatarState =
  direction :: Direction
  posX :: jsnum
  posY :: jsnum
  rotation :: jsnum
  scale :: jsnum

record ExpressionAction = AvatarState +
  expression :: string
  duration :: jsnum

record BatchExpressions =
  loop :: bool
  random :: "bool option"
  actions :: "ExpressionAction list"
  batchId :: string

text \<open>
  The catalog \<^verbatim>\<open>expressionMap\<close> is a plain object, filled from the list of
  expressions at start-up and never written again. Reading \<^verbatim>\<open>expressionMap[k]\<close> gives
  the entry stored under \<open>k\<close>, else the member every plain object inherits from
  \<^verbatim>\<open>Object.prototype\<close> under that name (a function, or the prototype itself for
  \<^verbatim>\<open>__proto__\<close>), else \<^verbatim>\<open>undefined\<close>. An inherited member is truthy and has no
  enumerable field of its own, so spreading it into a response adds nothing.
\<close>

datatype MapValue = Entry Expression | PrototypeMember

text \<open>
  The catalog is a parameter \<open>em\<close> of every handler: \<open>em k\<close> is what
  \<^verbatim>\<open>expressionMap[k]\<close> evaluates to, \<open>None\<close> for \<^verbatim>\<open>undefined\<close>.
\<close>

type_synonym ExpressionMap = "string \<Rightarrow> MapValue option"

definition objectPrototypeNames :: "string list" where
  "objectPrototypeNames =
     [''constructor'', ''__defineGetter__'', ''__defineSetter__'', ''hasOwnProperty'',
      ''__lookupGetter__'', ''__lookupSetter__'', ''isPrototypeOf'',
      ''propertyIsEnumerable'', ''toString'', ''valueOf'', ''__proto__'',
      ''toLocaleString'']"

text \<open>
  The object the \<^verbatim>\<open>reduce\<close> at start-up builds from the loaded expressions: each
  expression is stored under its name, a later one replacing an earlier one of the same
  name. (An expression named \<^verbatim>\<open>__proto__\<close> would replace the prototype instead of
  being stored; such a catalog is outside the model.)
\<close>

definition ownEntries :: "Expression list \<Rightarrow> string \<rightharpoonup> Expression" where
  "ownEntries expressions = foldl (\<lambda>m exp. m(name exp \<mapsto> exp)) Map.empty expressions"

definition expressionMap :: "Expression list \<Rightarrow> ExpressionMap" where
  "expressionMap expressions k =
     (case ownEntries expressions k of
        Some e \<Rightarrow> Some (Entry e)
      | None \<Rightarrow> if k \<in> set objectPrototypeNames then Some PrototypeMember else None)"

text \<open>The module-level variables of the server.\<close>

record ServerState =
  currentExpression :: string
  avatarState :: AvatarState
  batchExpressionsState :: "BatchExpressions option"

text \<open>The initial values of the module-level variables.\<close>

definition initialAvatarState :: AvatarState where
  "initialAvatarState =
     \<lparr>direction = DirRight, posX = Fin 0, posY = Fin 0, rotation = Fin 0, scale = Fin 1\<rparr>"

definition initialServerState :: ServerState where
  "initialServerState =
     \<lparr>currentExpression = ''joyful'', avatarState = initialAvatarState,
      batchExpressionsState = None\<rparr>"

text \<open>The positioning fields of an action, as the object literal of the source copies them.\<close>

definition stateOfAction :: "ExpressionAction \<Rightarrow> AvatarState" where
  "stateOfAction action =
     \<lparr>direction = direction action, posX = posX action, posY = posY action,
      rotation = rotation action, scale = scale action\<rparr>"

text \<open>\<^verbatim>\<open>b || false\<close> on an optional boolean.\<close>

fun bool_or_false :: "bool option \<Rightarrow> bool" where
  "bool_or_false None = False"
| "bool_or_false (Some b) = b"

subsection \<open>The callbacks handed to the MCP module\<close>

definition handleExpressionUpdate ::
  "ExpressionMap \<Rightarrow> string \<Rightarrow> AvatarState \<Rightarrow> ServerState \<Rightarrow> ServerState" where
  "handleExpressionUpdate em n state s =
     (if em n \<noteq> None then
        s\<lparr>batchExpressionsState := None, currentExpression := n, avatarState := state\<rparr>
      else s)"

text \<open>What \<^verbatim>\<open>handleBatchExpressionsUpdate\<close> writes to the log.\<close>

datatype BatchLog =
    BatchUpdatedViaMcp BatchExpressions
  | InvalidExpressionInBatch string
  | NoValidExpressionsIgnoringUpdate
  | SomeFilteredOut nat
  | SingleActionConverted string

definition isValidAction :: "ExpressionMap \<Rightarrow> ExpressionAction \<Rightarrow> bool" where
  "isValidAction em action = (em (expression action) \<noteq> None)"

text \<open>
  \<^verbatim>\<open>handleBatchExpressionsUpdate\<close>. The identifier that \<^verbatim>\<open>uuidv4()\<close> would return
  is the parameter \<open>uuid\<close>. The result is the log and the new server state.
\<close>

definition handleBatchExpressionsUpdate ::
  "ExpressionMap \<Rightarrow> string \<Rightarrow> BatchExpressions \<Rightarrow> ServerState
     \<Rightarrow> BatchLog list \<times> ServerState" where
  "handleBatchExpressionsUpdate em uuid batchExpressions s =
     (let log0 = [BatchUpdatedViaMcp batchExpressions];
          validActions = filter (isValidAction em) (actions batchExpressions);
          log1 = log0 @ map (\<lambda>a. InvalidExpressionInBatch (expression a))
                          (filter (\<lambda>a. \<not> isValidAction em a) (actions batchExpressions))
      in if length validActions = 0 then (log1 @ [NoValidExpressionsIgnoringUpdate], s)
         else
           (let filtered = (length validActions \<noteq> length (actions batchExpressions));
                log2 = (if filtered
                        then log1 @ [SomeFilteredOut
                               (length (actions batchExpressions) - length validActions)]
                        else log1);
                batchExpressions' = (if filtered
                        then batchExpressions\<lparr>actions := validActions\<rparr>
                        else batchExpressions)
            in if length validActions = 1 \<and> \<not> loop batchExpressions' then
                 (let action = validActions ! 0
                  in (log2 @ [SingleActionConverted (expression action)],
                      s\<lparr>currentExpression := expression action,
                        avatarState := stateOfAction action,
                        batchExpressionsState := None\<rparr>))
               else
                 (let s1 = s\<lparr>batchExpressionsState := Some
                             (batchExpressions'
                                \<lparr>random := Some (bool_or_false (random batchExpressions')),
                                 batchId := (if batchId batchExpressions' = [] then uuid
                                             else batchId batchExpressions')\<rparr>)\<rparr>
                  in if length validActions > 0 then
                       (let firstAction = validActions ! 0
                        in (log2, s1\<lparr>currentExpression := expression firstAction,
                                     avatarState := stateOfAction firstAction\<rparr>))
                     else (log2, s1))))"

subsection \<open>The HTTP endpoints\<close>

datatype HttpError = NotFound404 | BadRequest400

text \<open>
  The body of a successful response: what the catalog holds under the expression's name,
  spread into the response, and the positioning fields; \<^verbatim>\<open>/api/current-expression\<close> adds the batch when there is
  one, \<^verbatim>\<open>/api/set-expression\<close> adds \<^verbatim>\<open>success\<close>. The JSON object of the source is
  flat; the groups of fields are kept apart here.
\<close>

record ExpressionResponse =
  entry :: MapValue
  visual :: AvatarState

record CurrentResponse = ExpressionResponse +
  batchExpressions :: "BatchExpressions option"

record SetResponse = ExpressionResponse +
  success :: bool

text \<open>\<^verbatim>\<open>GET /api/current-expression\<close>. It writes no variable.\<close>

definition getCurrentExpression ::
  "ExpressionMap \<Rightarrow> ServerState \<Rightarrow> HttpError + CurrentResponse" where
  "getCurrentExpression em s =
     (case em (currentExpression s) of
        None \<Rightarrow> Inl NotFound404
      | Some e \<Rightarrow>
          Inr \<lparr>entry = e,
               visual = \<lparr>direction = direction (avatarState s), posX = posX (avatarState s),
                         posY = posY (avatarState s), rotation = rotation (avatarState s),
                         scale = scale (avatarState s)\<rparr>,
               batchExpressions =
                 (case batchExpressionsState s of
                    None \<Rightarrow> None
                  | Some b \<Rightarrow> Some (b\<lparr>random := Some (bool_or_false (random b))\<rparr>))\<rparr>)"

text \<open>
  \<^verbatim>\<open>GET /api/set-expression\<close>. Each query parameter is \<open>None\<close> when it is absent
  (for \<open>n\<close> also when it is not a string) and the text of the parameter otherwise.
  The \<^verbatim>\<open>try\<close> blocks of the source have no branch here: \<open>parseInt\<close> and
  \<open>parseFloat\<close> return a number for every string.
\<close>

definition setExpression ::
  "ExpressionMap \<Rightarrow> string option \<Rightarrow> string option \<Rightarrow> string option \<Rightarrow> string option
     \<Rightarrow> string option \<Rightarrow> string option \<Rightarrow> ServerState
     \<Rightarrow> (HttpError + SetResponse) \<times> ServerState" where
  "setExpression em n dir pos_x pos_y rot sc s =
     (case n of
        None \<Rightarrow> (Inl BadRequest400, s)
      | Some nm \<Rightarrow>
         (case em nm of
            None \<Rightarrow> (Inl BadRequest400, s)
          | Some e \<Rightarrow>
             (let a0 = avatarState s;
                  a1 = (if dir = Some ''left'' then a0\<lparr>direction := DirLeft\<rparr>
                        else if dir = Some ''right'' then a0\<lparr>direction := DirRight\<rparr>
                        else a0);
                  a2 = (case pos_x of None \<Rightarrow> a1
                        | Some v \<Rightarrow> a1\<lparr>posX := parseInt v\<rparr>);
                  a3 = (case pos_y of None \<Rightarrow> a2
                        | Some v \<Rightarrow> a2\<lparr>posY := parseInt v\<rparr>);
                  a4 = (case rot of None \<Rightarrow> a3
                        | Some v \<Rightarrow>
                            a3\<lparr>rotation :=
                                 Math_max (Fin (- 30)) (Math_min (Fin 30) (parseInt v))\<rparr>);
                  a5 = (case sc of None \<Rightarrow> a4
                        | Some v \<Rightarrow>
                            (let scaleValue = parseFloat v
                             in if \<not> isNaN scaleValue then
                                  a4\<lparr>scale :=
                                       Math_max (Fin (1 / 10)) (Math_min (Fin 3) scaleValue)\<rparr>
                                else a4))
              in (Inr \<lparr>entry = e,
                       visual = \<lparr>direction = direction a5, posX = posX a5, posY = posY a5,
                                 rotation = rotation a5, scale = scale a5\<rparr>,
                       success = True\<rparr>,
                  s\<lparr>currentExpression := nm, avatarState := a5\<rparr>))))"

subsection \<open>The tool functions exported by src/index.ts\<close>

datatype ToolError = InvalidExpression string

text \<open>
  \<^verbatim>\<open>mcpTools.setAvatarExpression.function\<close>. An optional argument is \<open>None\<close> when it
  is \<^verbatim>\<open>undefined\<close>. The \<^verbatim>\<open>throw\<close> of the source is the \<open>Inl\<close> result.
\<close>

definition setAvatarExpression ::
  "ExpressionMap \<Rightarrow> string \<Rightarrow> string option \<Rightarrow> jsnum option \<Rightarrow> jsnum option
     \<Rightarrow> jsnum option \<Rightarrow> jsnum option \<Rightarrow> ServerState
     \<Rightarrow> (ToolError + SetResponse) \<times> ServerState" where
  "setAvatarExpression em n dir px py rot sc s =
     (case em n of
        None \<Rightarrow> (Inl (InvalidExpression n), s)
      | Some e \<Rightarrow>
         (let a0 = avatarState s;
              a1 = (if dir = Some ''left'' then a0\<lparr>direction := DirLeft\<rparr>
                    else if dir = Some ''right'' then a0\<lparr>direction := DirRight\<rparr>
                    else a0);
              a2 = (case px of None \<Rightarrow> a1 | Some v \<Rightarrow> a1\<lparr>posX := v\<rparr>);
              a3 = (case py of None \<Rightarrow> a2 | Some v \<Rightarrow> a2\<lparr>posY := v\<rparr>);
              a4 = (case rot of None \<Rightarrow> a3
                    | Some v \<Rightarrow>
                        a3\<lparr>rotation := Math_max (Fin (- 30)) (Math_min (Fin 30) v)\<rparr>);
              a5 = (case sc of None \<Rightarrow> a4
                    | Some v \<Rightarrow>
                        a4\<lparr>scale := Math_max (Fin (1 / 10)) (Math_min (Fin 3) v)\<rparr>)
          in (Inr \<lparr>entry = e,
                   visual = \<lparr>direction = direction a5, posX = posX a5, posY = posY a5,
                             rotation = rotation a5, scale = scale a5\<rparr>,
                   success = True\<rparr>,
              s\<lparr>currentExpression := n, avatarState := a5, batchExpressionsState := None\<rparr>)))"

subsection \<open>The MCP module (src/mcp-server.ts) in front of the callbacks\<close>

text \<open>
  The module keeps its own copy of the current expression and of the avatar state,
  merges the arguments of a call into that copy, and hands the copy to
  \<^verbatim>\<open>onExpressionUpdate\<close>, which is \<open>handleExpressionUpdate\<close>.
\<close>

record McpState =
  mcpCurrentExpression :: string
  mcpAvatarState :: AvatarState

text \<open>The initial values of the module's variables.\<close>

definition initialMcpState :: McpState where
  "initialMcpState = \<lparr>mcpCurrentExpression = ''joyful'', mcpAvatarState = initialAvatarState\<rparr>"

datatype ToolText = InvalidExpressionText string | ExpressionSetText string

definition mcpSetAvatarExpression ::
  "ExpressionMap \<Rightarrow> string \<Rightarrow> Direction option \<Rightarrow> jsnum option \<Rightarrow> jsnum option
     \<Rightarrow> jsnum option \<Rightarrow> jsnum option \<Rightarrow> McpState \<times> ServerState
     \<Rightarrow> ToolText \<times> McpState \<times> ServerState" where
  "mcpSetAvatarExpression em n dir px py rot sc ms =
     (case ms of (m, s) \<Rightarrow>
        (case em n of
           None \<Rightarrow> (InvalidExpressionText n, m, s)
         | Some e \<Rightarrow>
            (let a0 = mcpAvatarState m;
                 a1 = (case dir of None \<Rightarrow> a0 | Some d \<Rightarrow> a0\<lparr>direction := d\<rparr>);
                 a2 = (case px of None \<Rightarrow> a1 | Some v \<Rightarrow> a1\<lparr>posX := v\<rparr>);
                 a3 = (case py of None \<Rightarrow> a2 | Some v \<Rightarrow> a2\<lparr>posY := v\<rparr>);
                 a4 = (case rot of None \<Rightarrow> a3
                       | Some v \<Rightarrow>
                           a3\<lparr>rotation := Math_max (Fin (- 30)) (Math_min (Fin 30) v)\<rparr>);
                 a5 = (case sc of None \<Rightarrow> a4
                       | Some v \<Rightarrow>
                           a4\<lparr>scale := Math_max (Fin (1 / 10)) (Math_min (Fin 3) v)\<rparr>)
             in (ExpressionSetText n,
                 \<lparr>mcpCurrentExpression = n, mcpAvatarState = a5\<rparr>,
                 handleExpressionUpdate em n a5 s))))"

section \<open>The batch player of the display page (public/index.html)\<close>

text \<open>
  The script's variables, and the calls of \<^verbatim>\<open>updateSingleExpression\<close> in the order
  they were made: the last one is what the page shows. \<open>batchTimeout\<close> is the
  pending frame timer with its delay, \<open>None\<close> when no timer is pending (the handle of
  a timer that has fired is stale, and clearing it does nothing).
\<close>

record Player =
  currentBatch :: "BatchExpressions option"
  currentBatchId :: "string option"
  currentActionIndex :: nat
  batchTimeout :: "jsnum option"
  rendered :: "ExpressionResponse list"

definition initialPlayer :: Player where
  "initialPlayer =
     \<lparr>currentBatch = None, currentBatchId = None, currentActionIndex = 0,
      batchTimeout = None, rendered = []\<rparr>"

definition updateSingleExpression :: "ExpressionResponse \<Rightarrow> Player \<Rightarrow> Player" where
  "updateSingleExpression d p = p\<lparr>rendered := rendered p @ [d]\<rparr>"

definition stopBatchExpression :: "Player \<Rightarrow> Player" where
  "stopBatchExpression p =
     p\<lparr>batchTimeout := None, currentBatch := None, currentBatchId := None,
       currentActionIndex := 0\<rparr>"

text \<open>The object \<^verbatim>\<open>expressionData\<close> that \<^verbatim>\<open>processBatchAction\<close> builds from an action.\<close>

definition expressionData :: "ExpressionAction \<Rightarrow> ExpressionResponse" where
  "expressionData action =
     \<lparr>entry = Entry \<lparr>name = expression action,
                      imageUrl = ''/images/'' @ expression action @ ''.png'',
                      description = ''Batch expression'',
                      useCases = []\<rparr>,
      visual = \<lparr>direction = direction action,
                 posX = num_or (posX action) (Fin 0),
                 posY = num_or (posY action) (Fin 0),
                 rotation = num_or (rotation action) (Fin 0),
                 scale = num_or (scale action) (Fin 1)\<rparr>\<rparr>"

text \<open>
  \<^verbatim>\<open>processBatchAction\<close> up to the call of \<^verbatim>\<open>setTimeout\<close>: it shows the current
  action and arms the timer. Reading an action beyond the end of the array would
  throw before any effect.
\<close>

definition processBatchAction :: "Player \<Rightarrow> Player" where
  "processBatchAction p =
     (case currentBatch p of
        None \<Rightarrow> p
      | Some b \<Rightarrow>
          if length (actions b) = 0 then p
          else if currentActionIndex p \<ge> length (actions b) then p
          else
            (let action = actions b ! currentActionIndex p
             in (updateSingleExpression (expressionData action) p)
                  \<lparr>batchTimeout := Some (duration action)\<rparr>))"

definition startBatchExpression :: "BatchExpressions \<Rightarrow> Player \<Rightarrow> Player" where
  "startBatchExpression batchData p =
     processBatchAction
       ((stopBatchExpression p)
          \<lparr>currentBatch := Some batchData, currentBatchId := Some (batchId batchData),
           currentActionIndex := 0\<rparr>)"

text \<open>
  \<^verbatim>\<open>updateAvatar\<close> on the outcome of the fetch: a failed fetch or a response that is
  not ok throws and is caught, changing nothing.
\<close>

definition updateAvatar :: "HttpError + CurrentResponse \<Rightarrow> Player \<Rightarrow> Player" where
  "updateAvatar response p =
     (case response of
        Inl _ \<Rightarrow> p
      | Inr d \<Rightarrow>
          (case batchExpressions d of
             Some b \<Rightarrow>
               if currentBatchId p \<noteq> Some (batchId b) then startBatchExpression b p else p
           | None \<Rightarrow>
               updateSingleExpression \<lparr>entry = entry d, visual = visual d\<rparr>
                 (stopBatchExpression p)))"

text \<open>
  The function passed to \<^verbatim>\<open>setTimeout\<close>, run when the timer expires. The array that
  \<^verbatim>\<open>[...currentBatch.actions].sort(() => Math.random() - 0.5)\<close> returns is decided by
  the browser's sort and by the random numbers drawn during the run, not by the page:
  the parameter \<open>sortResult\<close> gives, for the array that is sorted, the array that comes back.
\<close>

definition timeoutCallback ::
  "(ExpressionAction list \<Rightarrow> ExpressionAction list) \<Rightarrow> Player \<Rightarrow> Player" where
  "timeoutCallback sortResult p =
     (let p1 = p\<lparr>currentActionIndex := currentActionIndex p + 1\<rparr>
      in case currentBatch p1 of
           None \<Rightarrow> p1
         | Some b \<Rightarrow>
             if currentActionIndex p1 \<ge> length (actions b) then
               (if loop b then
                  (let p2 = (if bool_or_false (random b)
                             then p1\<lparr>currentBatch :=
                                       Some (b\<lparr>actions := sortResult (actions b)\<rparr>)\<rparr>
                             else p1)
                   in processBatchAction (p2\<lparr>currentActionIndex := 0\<rparr>))
                else p1\<lparr>currentBatch := None, currentBatchId := None\<rparr>)
             else processBatchAction p1)"

text \<open>
  What happens to the player: a poll returns, or the pending timer expires (with what a
  sort during the callback would return).
\<close>

datatype Event =
    Poll "HttpError + CurrentResponse"
  | TimerExpired "ExpressionAction list \<Rightarrow> ExpressionAction list"

fun playerStep :: "Player \<Rightarrow> Event \<Rightarrow> Player" where
  "playerStep p (Poll response) = updateAvatar response p"
| "playerStep p (TimerExpired sortResult) =
     (case batchTimeout p of
        None \<Rightarrow> p
      | Some d \<Rightarrow> timeoutCallback sortResult (p\<lparr>batchTimeout := None\<rparr>))"

definition playerRun :: "Player \<Rightarrow> Event list \<Rightarrow> Player" where
  "playerRun p es = foldl playerStep p es"

section \<open>The server as a machine driven by its entry points\<close>




section \<open>Concrete inputs\<close>

definition exampleCatalog :: ExpressionMap where
  "exampleCatalog =
     expressionMap
       [\<lparr>name = ''joyful'', imageUrl = ''/images/joyful.png'',
         description = ''Happy and celebratory expression'', useCases = []\<rparr>,
        \<lparr>name = ''sad'', imageUrl = ''/images/sad.png'',
         description = ''Sad expression'', useCases = []\<rparr>]"

definition exampleAction :: "string \<Rightarrow> real \<Rightarrow> ExpressionAction" where
  "exampleAction n d =
     \<lparr>direction = DirRight, posX = Fin 0, posY = Fin 0, rotation = Fin 0, scale = Fin 1,
      expression = n, duration = Fin d\<rparr>"

definition exampleBatch :: "bool \<Rightarrow> bool \<Rightarrow> BatchExpressions" where
  "exampleBatch l r =
     \<lparr>loop = l, random = Some r,
      actions = [exampleAction ''joyful'' 100, exampleAction ''sad'' 200],
      batchId = ''batch-1''\<rparr>"

definition onceBatchInstalled :: ServerState where
  "onceBatchInstalled =
     snd (handleBatchExpressionsUpdate exampleCatalog ''uuid-1'' (exampleBatch False False)
            initialServerState)"

definition unknownBatch :: BatchExpressions where
  "unknownBatch =
     \<lparr>loop = True, random = None,
      actions = [exampleAction ''grumpy'' 100, exampleAction ''sleepy'' 100,
                 exampleAction ''grumpy'' 300],
      batchId = ''batch-2''\<rparr>"

definition oneUnknownBatch :: BatchExpressions where
  "oneUnknownBatch =
     \<lparr>loop = False, random = None,
      actions = [exampleAction ''sad'' 100, exampleAction ''grumpy'' 100,
                 exampleAction ''joyful'' 300],
      batchId = []\<rparr>"

definition movedState :: ServerState where
  "movedState =
     \<lparr>currentExpression = ''joyful'',
      avatarState = \<lparr>direction = DirLeft, posX = Fin 40, posY = Fin (- 7),
                     rotation = Fin 12, scale = Fin 2\<rparr>,
      batchExpressionsState = None\<rparr>"

definition runningPlayer :: Player where
  "runningPlayer =
     playerStep initialPlayer
       (Poll (getCurrentExpression exampleCatalog onceBatchInstalled))"


definition leaningAction :: ExpressionAction where
  "leaningAction =
     \<lparr>direction = DirLeft, posX = Fin 25, posY = Fin (- 4), rotation = Fin 15,
      scale = Fin (3 / 2), expression = ''sad'', duration = Fin 300\<rparr>"

definition inheritedBatch :: BatchExpressions where
  "inheritedBatch =
     \<lparr>loop = True, random = None,
      actions = [leaningAction\<lparr>expression := ''constructor''\<rparr>,
                 exampleAction ''toString'' 150],
      batchId = ''batch-4''\<rparr>"

definition pairBatch :: BatchExpressions where
  "pairBatch =
     \<lparr>loop = False, random = None,
      actions = [leaningAction, exampleAction ''constructor'' 100],
      batchId = ''batch-5''\<rparr>"

definition leaningBatch :: BatchExpressions where
  "leaningBatch =
     \<lparr>loop = False, random = None,
      actions = [exampleAction ''grumpy'' 100, leaningAction],
      batchId = ''batch-6''\<rparr>"


section \<open>Properties of the store\<close>

lemma exampleCatalog_simps:
  "exampleCatalog ''joyful'' =
     Some (Entry \<lparr>name = ''joyful'', imageUrl = ''/images/joyful.png'',
                   description = ''Happy and celebratory expression'', useCases = []\<rparr>)"
  "exampleCatalog ''sad'' =
     Some (Entry \<lparr>name = ''sad'', imageUrl = ''/images/sad.png'',
                   description = ''Sad expression'', useCases = []\<rparr>)"
  "exampleCatalog ''grumpy'' = None"
  "exampleCatalog ''sleepy'' = None"
  "exampleCatalog ''constructor'' = Some PrototypeMember"
  "exampleCatalog ''toString'' = Some PrototypeMember"
  by (simp_all add: exampleCatalog_def expressionMap_def ownEntries_def
      objectPrototypeNames_def)

lemma onceBatchInstalled_eq:
  "onceBatchInstalled =
     \<lparr>currentExpression = ''joyful'', avatarState = initialAvatarState,
      batchExpressionsState = Some (exampleBatch False False)\<rparr>"
  by (simp add: onceBatchInstalled_def handleBatchExpressionsUpdate_def exampleBatch_def
      exampleAction_def isValidAction_def exampleCatalog_simps initialServerState_def
      initialAvatarState_def stateOfAction_def Let_def)


lemma handleExpressionUpdate_clears_batch:
  "em n \<noteq> None \<Longrightarrow> batchExpressionsState (handleExpressionUpdate em n st s) = None"
  by (simp add: handleExpressionUpdate_def)

lemma setAvatarExpression_clears_batch:
  "em n \<noteq> None \<Longrightarrow>
   batchExpressionsState (snd (setAvatarExpression em n dir px py rot sc s)) = None"
  by (auto simp: setAvatarExpression_def Let_def split: option.splits)

lemma mcpSetAvatarExpression_clears_batch:
  "em n \<noteq> None \<Longrightarrow>
   batchExpressionsState (snd (snd (mcpSetAvatarExpression em n dir px py rot sc (m, s)))) = None"
  by (auto simp: mcpSetAvatarExpression_def handleExpressionUpdate_def Let_def split: option.splits)

text \<open>
  Claim C1: setting a single expression clears the active batch, whatever the entry
  point. The callback of the MCP module and the exported tool function do so (the three
  lemmas above), but \<^verbatim>\<open>GET /api/set-expression\<close> never writes
  \<^verbatim>\<open>batchExpressionsState\<close> (\<open>setExpression_keeps_batch\<close>): with a two-action batch installed, the request
  \<^verbatim>\<open>/api/set-expression?name=sad\<close> reports success and the next read of
  \<^verbatim>\<open>/api/current-expression\<close> still carries the batch.
\<close>

theorem C1_http_set_expression_keeps_batch:
  "fst (setExpression exampleCatalog (Some ''sad'') None None None None None onceBatchInstalled)
     = Inr \<lparr>entry = Entry \<lparr>name = ''sad'', imageUrl = ''/images/sad.png'',
                  description = ''Sad expression'', useCases = []\<rparr>,
            visual = initialAvatarState, success = True\<rparr>
   \<and> getCurrentExpression exampleCatalog
       (snd (setExpression exampleCatalog (Some ''sad'') None None None None None
               onceBatchInstalled))
     = Inr \<lparr>entry = Entry \<lparr>name = ''sad'', imageUrl = ''/images/sad.png'',
                  description = ''Sad expression'', useCases = []\<rparr>,
            visual = initialAvatarState,
            batchExpressions = Some (exampleBatch False False)\<rparr>"
  by (simp add: setExpression_def getCurrentExpression_def onceBatchInstalled_eq
      exampleCatalog_simps initialAvatarState_def exampleBatch_def Let_def)


lemma handleBatch_no_valid:
  assumes "filter (isValidAction em) (actions be) = []"
  shows "snd (handleBatchExpressionsUpdate em uuid be s) = s"
    and "NoValidExpressionsIgnoringUpdate \<in> set (fst (handleBatchExpressionsUpdate em uuid be s))"
  using assms by (simp_all add: handleBatchExpressionsUpdate_def Let_def)

lemma handleBatch_collapse:
  assumes "length (filter (isValidAction em) (actions be)) = 1" and "\<not> loop be"
  shows "snd (handleBatchExpressionsUpdate em uuid be s) =
           s\<lparr>currentExpression := expression (filter (isValidAction em) (actions be) ! 0),
             avatarState := stateOfAction (filter (isValidAction em) (actions be) ! 0),
             batchExpressionsState := None\<rparr>"
proof -
  from assms(1) have "filter (isValidAction em) (actions be) \<noteq> []" by auto
  with assms show ?thesis by (simp add: handleBatchExpressionsUpdate_def Let_def)
qed

lemma filter_same_length:
  assumes "length (filter P xs) = length xs"
  shows "filter P xs = xs"
proof (rule filter_True, rule ballI)
  fix x assume "x \<in> set xs"
  show "P x"
  proof (rule ccontr)
    assume "\<not> P x"
    with \<open>x \<in> set xs\<close> have "length (filter P xs) < length xs"
      by (rule length_filter_less)
    with assms show False by simp
  qed
qed

lemma handleBatch_install:
  assumes ne: "filter (isValidAction em) (actions be) \<noteq> []"
    and many: "length (filter (isValidAction em) (actions be)) \<noteq> 1 \<or> loop be"
  shows "snd (handleBatchExpressionsUpdate em uuid be s) =
           s\<lparr>batchExpressionsState :=
                Some (be\<lparr>actions := filter (isValidAction em) (actions be),
                         random := Some (bool_or_false (random be)),
                         batchId := (if batchId be = [] then uuid else batchId be)\<rparr>),
             currentExpression := expression (filter (isValidAction em) (actions be) ! 0),
             avatarState := stateOfAction (filter (isValidAction em) (actions be) ! 0)\<rparr>"
proof (cases "length (filter (isValidAction em) (actions be)) = length (actions be)")
  case True
  then have same: "filter (isValidAction em) (actions be) = actions be"
    by (rule filter_same_length)
  have "be\<lparr>actions := actions be\<rparr> = be" by simp
  with ne many same show ?thesis
    by (simp add: handleBatchExpressionsUpdate_def Let_def)
next
  case False
  with ne many show ?thesis
    by (simp add: handleBatchExpressionsUpdate_def Let_def)
qed

text \<open>
  What the handler does, in terms of its own check \<open>isValidAction\<close>: when no action
  passes the check the update is dropped (the handler logs it and returns) and the state
  is left as it was; when some but not all pass, it goes on with exactly the actions
  that pass, in their order: collapsed when one is left and the batch does not loop,
  stored otherwise.
\<close>

lemma batch_update_follows_check:
  "(filter (isValidAction em) (actions be) = [] \<longrightarrow>
      snd (handleBatchExpressionsUpdate em uuid be s) = s \<and>
      NoValidExpressionsIgnoringUpdate \<in> set (fst (handleBatchExpressionsUpdate em uuid be s)))
   \<and> (filter (isValidAction em) (actions be) \<noteq> [] \<and>
        length (filter (isValidAction em) (actions be)) \<noteq> length (actions be) \<longrightarrow>
        snd (handleBatchExpressionsUpdate em uuid be s) =
          (if length (filter (isValidAction em) (actions be)) = 1 \<and> \<not> loop be
           then s\<lparr>currentExpression := expression (filter (isValidAction em) (actions be) ! 0),
                  avatarState := stateOfAction (filter (isValidAction em) (actions be) ! 0),
                  batchExpressionsState := None\<rparr>
           else s\<lparr>batchExpressionsState :=
                    Some (be\<lparr>actions := filter (isValidAction em) (actions be),
                             random := Some (bool_or_false (random be)),
                             batchId := (if batchId be = [] then uuid else batchId be)\<rparr>),
                  currentExpression := expression (filter (isValidAction em) (actions be) ! 0),
                  avatarState := stateOfAction (filter (isValidAction em) (actions be) ! 0)\<rparr>))"
proof (intro conjI impI)
  assume "filter (isValidAction em) (actions be) = []"
  then show "snd (handleBatchExpressionsUpdate em uuid be s) = s"
    by (rule handleBatch_no_valid(1))
next
  assume "filter (isValidAction em) (actions be) = []"
  then show "NoValidExpressionsIgnoringUpdate
               \<in> set (fst (handleBatchExpressionsUpdate em uuid be s))"
    by (rule handleBatch_no_valid(2))
next
  assume a: "filter (isValidAction em) (actions be) \<noteq> [] \<and>
        length (filter (isValidAction em) (actions be)) \<noteq> length (actions be)"
  show "snd (handleBatchExpressionsUpdate em uuid be s) =
          (if length (filter (isValidAction em) (actions be)) = 1 \<and> \<not> loop be
           then s\<lparr>currentExpression := expression (filter (isValidAction em) (actions be) ! 0),
                  avatarState := stateOfAction (filter (isValidAction em) (actions be) ! 0),
                  batchExpressionsState := None\<rparr>
           else s\<lparr>batchExpressionsState :=
                    Some (be\<lparr>actions := filter (isValidAction em) (actions be),
                             random := Some (bool_or_false (random be)),
                             batchId := (if batchId be = [] then uuid else batchId be)\<rparr>),
                  currentExpression := expression (filter (isValidAction em) (actions be) ! 0),
                  avatarState := stateOfAction (filter (isValidAction em) (actions be) ! 0)\<rparr>)"
  proof (cases "length (filter (isValidAction em) (actions be)) = 1 \<and> \<not> loop be")
    case True
    then show ?thesis using handleBatch_collapse [of em be uuid s] by simp
  next
    case False
    then have "length (filter (isValidAction em) (actions be)) \<noteq> 1 \<or> loop be" by simp
    with a False show ?thesis using handleBatch_install [of em be uuid s] by simp
  qed
qed

lemma example_valid [simp]:
  "isValidAction exampleCatalog (exampleAction ''joyful'' d)"
  "isValidAction exampleCatalog (exampleAction ''sad'' d)"
  "\<not> isValidAction exampleCatalog (exampleAction ''grumpy'' d)"
  "\<not> isValidAction exampleCatalog (exampleAction ''sleepy'' d)"
  "isValidAction exampleCatalog (exampleAction ''constructor'' d)"
  "isValidAction exampleCatalog (exampleAction ''toString'' d)"
  "isValidAction exampleCatalog leaningAction"
  by (simp_all add: isValidAction_def exampleAction_def leaningAction_def
      exampleCatalog_simps)

lemma exampleAction_simps [simp]:
  "expression (exampleAction n d) = n"
  "duration (exampleAction n d) = Fin d"
  "stateOfAction (exampleAction n d) = initialAvatarState"
  by (simp_all add: exampleAction_def stateOfAction_def initialAvatarState_def)

lemma leaningAction_simps [simp]:
  "expression leaningAction = ''sad''"
  "duration leaningAction = Fin 300"
  "stateOfAction leaningAction =
     \<lparr>direction = DirLeft, posX = Fin 25, posY = Fin (- 4), rotation = Fin 15,
      scale = Fin (3 / 2)\<rparr>"
  by (simp_all add: leaningAction_def stateOfAction_def)

lemma batch_update_examples:
  "snd (handleBatchExpressionsUpdate exampleCatalog ''uuid-2'' unknownBatch onceBatchInstalled)
     = onceBatchInstalled
   \<and> NoValidExpressionsIgnoringUpdate
       \<in> set (fst (handleBatchExpressionsUpdate exampleCatalog ''uuid-2'' unknownBatch
                     onceBatchInstalled))
   \<and> snd (handleBatchExpressionsUpdate exampleCatalog ''uuid-2'' oneUnknownBatch
            onceBatchInstalled)
     = \<lparr>currentExpression = ''sad'', avatarState = initialAvatarState,
        batchExpressionsState =
          Some \<lparr>loop = False, random = Some False,
                actions = [exampleAction ''sad'' 100, exampleAction ''joyful'' 300],
                batchId = ''uuid-2''\<rparr>\<rparr>"
  using batch_update_follows_check [of exampleCatalog unknownBatch "''uuid-2''" onceBatchInstalled]
    batch_update_follows_check [of exampleCatalog oneUnknownBatch "''uuid-2''" onceBatchInstalled]
  by (simp add: unknownBatch_def oneUnknownBatch_def onceBatchInstalled_eq)

text \<open>
  Claim C4: a descriptor none of whose actions names a known expression is rejected and
  the prior state left unchanged; with some but not all actions valid the update goes
  on with exactly the valid ones. The handler's check is
  \<^verbatim>\<open>expressionMap[action.expression] !== undefined\<close> on a plain object, and the names a
  plain object inherits pass it. Neither \<^verbatim>\<open>constructor\<close> nor \<^verbatim>\<open>toString\<close> is an
  expression of the catalog, yet a batch of these two actions is not rejected: nothing
  is logged but the call itself, the batch replaces the running one, and the current
  expression becomes \<^verbatim>\<open>constructor\<close>.
\<close>

theorem C4_inherited_names_pass_validation:
  "exampleCatalog ''constructor'' = Some PrototypeMember
   \<and> exampleCatalog ''toString'' = Some PrototypeMember
   \<and> handleBatchExpressionsUpdate exampleCatalog ''uuid-4'' inheritedBatch onceBatchInstalled
       = ([BatchUpdatedViaMcp inheritedBatch],
          \<lparr>currentExpression = ''constructor'',
           avatarState = \<lparr>direction = DirLeft, posX = Fin 25, posY = Fin (- 4),
                          rotation = Fin 15, scale = Fin (3 / 2)\<rparr>,
           batchExpressionsState =
             Some \<lparr>loop = True, random = Some False,
                   actions = [leaningAction\<lparr>expression := ''constructor''\<rparr>,
                              exampleAction ''toString'' 150],
                   batchId = ''batch-4''\<rparr>\<rparr>)
   \<and> getCurrentExpression exampleCatalog
         (snd (handleBatchExpressionsUpdate exampleCatalog ''uuid-4'' inheritedBatch
                 onceBatchInstalled))
       = Inr \<lparr>entry = PrototypeMember,
              visual = \<lparr>direction = DirLeft, posX = Fin 25, posY = Fin (- 4),
                         rotation = Fin 15, scale = Fin (3 / 2)\<rparr>,
              batchExpressions =
                Some \<lparr>loop = True, random = Some False,
                      actions = [leaningAction\<lparr>expression := ''constructor''\<rparr>,
                                 exampleAction ''toString'' 150],
                      batchId = ''batch-4''\<rparr>\<rparr>"
  by (simp add: handleBatchExpressionsUpdate_def getCurrentExpression_def inheritedBatch_def
      isValidAction_def exampleCatalog_simps onceBatchInstalled_eq leaningAction_def
      stateOfAction_def Let_def)

text \<open>
  With exactly one action passing the handler's check and \<^verbatim>\<open>loop\<close> false, the update is
  collapsed into a single-expression set: no batch is stored, the current expression
  and each positioning field are that action's, and the next read of
  \<^verbatim>\<open>/api/current-expression\<close> has no batch field.
\<close>

lemma batch_update_collapses:
  assumes "filter (isValidAction em) (actions be) = [a]" and "\<not> loop be"
  shows "batchExpressionsState (snd (handleBatchExpressionsUpdate em uuid be s)) = None
         \<and> currentExpression (snd (handleBatchExpressionsUpdate em uuid be s)) = expression a
         \<and> avatarState (snd (handleBatchExpressionsUpdate em uuid be s))
             = \<lparr>direction = direction a, posX = posX a, posY = posY a,
                rotation = rotation a, scale = scale a\<rparr>
         \<and> (\<exists>e. em (expression a) = Some e
                \<and> getCurrentExpression em (snd (handleBatchExpressionsUpdate em uuid be s))
                    = Inr \<lparr>entry = e,
                           visual = \<lparr>direction = direction a, posX = posX a, posY = posY a,
                                      rotation = rotation a, scale = scale a\<rparr>,
                           batchExpressions = None\<rparr>)"
proof -
  let ?s' = "snd (handleBatchExpressionsUpdate em uuid be s)"
  from assms(1) have len: "length (filter (isValidAction em) (actions be)) = 1" by simp
  from assms(1) have "a \<in> set (filter (isValidAction em) (actions be))" by simp
  then have "isValidAction em a" by simp
  then obtain e where e: "em (expression a) = Some e"
    by (auto simp: isValidAction_def)
  from handleBatch_collapse [OF len assms(2), of uuid s] assms(1)
  have s': "?s' = s\<lparr>currentExpression := expression a,
                     avatarState := \<lparr>direction = direction a, posX = posX a, posY = posY a,
                                      rotation = rotation a, scale = scale a\<rparr>,
                     batchExpressionsState := None\<rparr>"
    by (simp add: stateOfAction_def)
  then have "getCurrentExpression em ?s'
               = Inr \<lparr>entry = e,
                      visual = \<lparr>direction = direction a, posX = posX a, posY = posY a,
                                 rotation = rotation a, scale = scale a\<rparr>,
                      batchExpressions = None\<rparr>"
    using e by (simp add: getCurrentExpression_def)
  with s' e show ?thesis by simp
qed

lemma batch_update_collapses_example:
  "handleBatchExpressionsUpdate exampleCatalog ''uuid-6'' leaningBatch onceBatchInstalled
     = ([BatchUpdatedViaMcp leaningBatch, InvalidExpressionInBatch ''grumpy'',
         SomeFilteredOut 1, SingleActionConverted ''sad''],
        \<lparr>currentExpression = ''sad'',
         avatarState = \<lparr>direction = DirLeft, posX = Fin 25, posY = Fin (- 4),
                        rotation = Fin 15, scale = Fin (3 / 2)\<rparr>,
         batchExpressionsState = None\<rparr>)"
  by (simp add: handleBatchExpressionsUpdate_def leaningBatch_def onceBatchInstalled_eq
      Let_def)

text \<open>
  Claim C5: a batch with exactly one valid action and \<^verbatim>\<open>loop\<close> false is collapsed into
  a single-expression set and never appears as a batch. The handler counts the actions
  that pass its check, and an inherited name passes it: the batch of one action for
  the known expression \<^verbatim>\<open>sad\<close> and one for \<^verbatim>\<open>constructor\<close>, with \<^verbatim>\<open>loop\<close> false, is
  not collapsed but stored with both actions, and the next read carries it.
\<close>

theorem C5_inherited_name_prevents_collapse:
  "exampleCatalog ''constructor'' = Some PrototypeMember
   \<and> handleBatchExpressionsUpdate exampleCatalog ''uuid-5'' pairBatch initialServerState
       = ([BatchUpdatedViaMcp pairBatch],
          \<lparr>currentExpression = ''sad'',
           avatarState = \<lparr>direction = DirLeft, posX = Fin 25, posY = Fin (- 4),
                          rotation = Fin 15, scale = Fin (3 / 2)\<rparr>,
           batchExpressionsState =
             Some \<lparr>loop = False, random = Some False,
                   actions = [leaningAction, exampleAction ''constructor'' 100],
                   batchId = ''batch-5''\<rparr>\<rparr>)
   \<and> getCurrentExpression exampleCatalog
         (snd (handleBatchExpressionsUpdate exampleCatalog ''uuid-5'' pairBatch
                 initialServerState))
       = Inr \<lparr>entry = Entry \<lparr>name = ''sad'', imageUrl = ''/images/sad.png'',
                              description = ''Sad expression'', useCases = []\<rparr>,
              visual = \<lparr>direction = DirLeft, posX = Fin 25, posY = Fin (- 4),
                         rotation = Fin 15, scale = Fin (3 / 2)\<rparr>,
              batchExpressions =
                Some \<lparr>loop = False, random = Some False,
                      actions = [leaningAction, exampleAction ''constructor'' 100],
                      batchId = ''batch-5''\<rparr>\<rparr>"
  by (simp add: handleBatchExpressionsUpdate_def getCurrentExpression_def pairBatch_def
      exampleCatalog_simps initialServerState_def Let_def)

lemma setExpression_fails:
  "n = None \<or> (\<exists>nm. n = Some nm \<and> em nm = None) \<Longrightarrow>
   setExpression em n dir px py rot sc s = (Inl BadRequest400, s)"
  by (auto simp: setExpression_def)

lemma setExpression_avatarState:
  assumes "em nm = Some e"
  shows "avatarState (snd (setExpression em (Some nm) dir px py rot sc s)) =
     \<lparr>direction = (if dir = Some ''left'' then DirLeft
                    else if dir = Some ''right'' then DirRight
                    else direction (avatarState s)),
      posX = (case px of None \<Rightarrow> posX (avatarState s) | Some v \<Rightarrow> parseInt v),
      posY = (case py of None \<Rightarrow> posY (avatarState s) | Some v \<Rightarrow> parseInt v),
      rotation = (case rot of None \<Rightarrow> rotation (avatarState s)
                  | Some v \<Rightarrow> Math_max (Fin (- 30)) (Math_min (Fin 30) (parseInt v))),
      scale = (case sc of None \<Rightarrow> scale (avatarState s)
               | Some v \<Rightarrow> if isNaN (parseFloat v) then scale (avatarState s)
                           else Math_max (Fin (1 / 10)) (Math_min (Fin 3) (parseFloat v)))\<rparr>"
  using assms by (simp add: setExpression_def Let_def split: option.splits)

lemma setExpression_response:
  assumes "em nm = Some e"
  shows "fst (setExpression em (Some nm) dir px py rot sc s) =
     Inr \<lparr>entry = e,
          visual = avatarState (snd (setExpression em (Some nm) dir px py rot sc s)),
          success = True\<rparr>"
  using assms by (simp add: setExpression_def Let_def split: option.splits)


lemma setExpression_success:
  assumes "fst (setExpression em n dir px py rot sc s) = Inr r"
  shows "\<exists>nm e. n = Some nm \<and> em nm = Some e"
  using assms by (auto simp: setExpression_def Let_def split: option.splits)

lemma setAvatarExpression_avatarState:
  assumes "em n = Some e"
  shows "avatarState (snd (setAvatarExpression em n dir px py rot sc s)) =
     \<lparr>direction = (if dir = Some ''left'' then DirLeft
                    else if dir = Some ''right'' then DirRight
                    else direction (avatarState s)),
      posX = (case px of None \<Rightarrow> posX (avatarState s) | Some v \<Rightarrow> v),
      posY = (case py of None \<Rightarrow> posY (avatarState s) | Some v \<Rightarrow> v),
      rotation = (case rot of None \<Rightarrow> rotation (avatarState s)
                  | Some v \<Rightarrow> Math_max (Fin (- 30)) (Math_min (Fin 30) v)),
      scale = (case sc of None \<Rightarrow> scale (avatarState s)
               | Some v \<Rightarrow> Math_max (Fin (1 / 10)) (Math_min (Fin 3) v))\<rparr>"
  using assms by (simp add: setAvatarExpression_def Let_def split: option.splits)

lemma setAvatarExpression_response:
  assumes "em n = Some e"
  shows "fst (setAvatarExpression em n dir px py rot sc s) =
     Inr \<lparr>entry = e,
          visual = avatarState (snd (setAvatarExpression em n dir px py rot sc s)),
          success = True\<rparr>"
  using assms by (simp add: setAvatarExpression_def Let_def split: option.splits)

lemma setAvatarExpression_success:
  assumes "fst (setAvatarExpression em n dir px py rot sc s) = Inr r"
  shows "\<exists>e. em n = Some e"
  using assms by (auto simp: setAvatarExpression_def Let_def split: option.splits)

lemma clamp_inRange:
  assumes "\<not> isNaN v" and "lo \<le> hi"
  shows "inRange lo hi (Math_max (Fin lo) (Math_min (Fin hi) v))"
  using assms by (cases v) (auto simp: Math_max_def Math_min_def)

lemma setExpression_scale_inRange:
  assumes "inRange (1 / 10) 3 (scale (avatarState s))"
  shows "inRange (1 / 10) 3 (scale (avatarState (snd (setExpression em n dir px py rot sc s))))"
proof (cases "n = None \<or> (\<exists>nm. n = Some nm \<and> em nm = None)")
  case True
  then have "setExpression em n dir px py rot sc s = (Inl BadRequest400, s)"
    by (rule setExpression_fails)
  with assms show ?thesis by simp
next
  case False
  then obtain nm e where n: "n = Some nm" and e: "em nm = Some e" by auto
  have "inRange (1 / 10) 3 (Math_max (Fin (1 / 10)) (Math_min (Fin 3) v))" if "\<not> isNaN v" for v
    using that by (rule clamp_inRange) simp
  with assms show ?thesis
    unfolding n setExpression_avatarState [of em nm e dir px py rot sc s, OF e]
    by (simp split: option.splits)
qed

lemma setExpression_rotation_inRange:
  assumes "inRange (- 30) 30 (rotation (avatarState s))"
    and "\<forall>v. rot = Some v \<longrightarrow> \<not> isNaN (parseInt v)"
  shows "inRange (- 30) 30
           (rotation (avatarState (snd (setExpression em n dir px py rot sc s))))"
proof (cases "n = None \<or> (\<exists>nm. n = Some nm \<and> em nm = None)")
  case True
  then have "setExpression em n dir px py rot sc s = (Inl BadRequest400, s)"
    by (rule setExpression_fails)
  with assms show ?thesis by simp
next
  case False
  then obtain nm e where n: "n = Some nm" and e: "em nm = Some e" by auto
  have "inRange (- 30) 30 (Math_max (Fin (- 30)) (Math_min (Fin 30) v))" if "\<not> isNaN v" for v
    using that by (rule clamp_inRange) simp
  with assms show ?thesis
    unfolding n setExpression_avatarState [of em nm e dir px py rot sc s, OF e]
    by (simp split: option.splits)
qed

text \<open>
  Claim C3: on every write path the stored rotation is a number in [-30, 30] and the
  stored scale a number in [0.1, 3.0]. The request
  \<^verbatim>\<open>/api/set-expression?name=joyful&rotation=abc\<close> reports success and stores NaN as
  the rotation: \<open>parseInt\<close> returns NaN, and \<open>Math_max\<close> and \<open>Math_min\<close> pass it on.
  For a number that is not NaN the clamp lands in the range, and the scale branch, which
  tests \<^verbatim>\<open>isNaN\<close>, keeps the scale in its range (the three lemmas above).
\<close>

theorem C3_http_rotation_not_a_number:
  "fst (setExpression exampleCatalog (Some ''joyful'') None None None (Some ''abc'') None
          initialServerState)
     = Inr \<lparr>entry = Entry \<lparr>name = ''joyful'', imageUrl = ''/images/joyful.png'',
                  description = ''Happy and celebratory expression'', useCases = []\<rparr>,
            visual = initialAvatarState\<lparr>rotation := NaN\<rparr>, success = True\<rparr>
   \<and> rotation (avatarState
        (snd (setExpression exampleCatalog (Some ''joyful'') None None None (Some ''abc'') None
                initialServerState))) = NaN
   \<and> \<not> inRange (- 30) 30 (rotation (avatarState
        (snd (setExpression exampleCatalog (Some ''joyful'') None None None (Some ''abc'') None
                initialServerState))))"
  by (simp add: setExpression_def exampleCatalog_simps initialServerState_def
      initialAvatarState_def parseInt_def isWhiteSpace_def isDigit_def Math_max_def
      Math_min_def Let_def)

text \<open>
  The two entry points that write the store's \<^verbatim>\<open>avatarState\<close> field by field,
  \<^verbatim>\<open>GET /api/set-expression\<close> (first conjunct) and
  \<^verbatim>\<open>mcpTools.setAvatarExpression.function\<close> (second conjunct), keep each of direction,
  posX, posY, rotation and scale that a successful call did not supply, and merge the
  supplied ones over the current state.
\<close>

lemma set_expression_keeps_unsupplied_fields:
  "(fst (setExpression em n dir px py rot sc s) = Inr r \<longrightarrow>
      (dir = None \<longrightarrow> direction (avatarState (snd (setExpression em n dir px py rot sc s)))
                         = direction (avatarState s))
    \<and> (px = None \<longrightarrow> posX (avatarState (snd (setExpression em n dir px py rot sc s)))
                         = posX (avatarState s))
    \<and> (py = None \<longrightarrow> posY (avatarState (snd (setExpression em n dir px py rot sc s)))
                         = posY (avatarState s))
    \<and> (rot = None \<longrightarrow> rotation (avatarState (snd (setExpression em n dir px py rot sc s)))
                         = rotation (avatarState s))
    \<and> (sc = None \<longrightarrow> scale (avatarState (snd (setExpression em n dir px py rot sc s)))
                         = scale (avatarState s))
    \<and> (dir = Some ''left'' \<longrightarrow>
          direction (avatarState (snd (setExpression em n dir px py rot sc s))) = DirLeft)
    \<and> (dir = Some ''right'' \<longrightarrow>
          direction (avatarState (snd (setExpression em n dir px py rot sc s))) = DirRight)
    \<and> (\<forall>v. px = Some v \<longrightarrow>
          posX (avatarState (snd (setExpression em n dir px py rot sc s))) = parseInt v)
    \<and> (\<forall>v. py = Some v \<longrightarrow>
          posY (avatarState (snd (setExpression em n dir px py rot sc s))) = parseInt v)
    \<and> (\<forall>v. rot = Some v \<longrightarrow>
          rotation (avatarState (snd (setExpression em n dir px py rot sc s)))
            = Math_max (Fin (- 30)) (Math_min (Fin 30) (parseInt v)))
    \<and> (\<forall>v. sc = Some v \<and> \<not> isNaN (parseFloat v) \<longrightarrow>
          scale (avatarState (snd (setExpression em n dir px py rot sc s)))
            = Math_max (Fin (1 / 10)) (Math_min (Fin 3) (parseFloat v))))
   \<and> (fst (setAvatarExpression em tn tdir tpx tpy trot tsc s) = Inr tr \<longrightarrow>
      (tdir = None \<longrightarrow>
          direction (avatarState (snd (setAvatarExpression em tn tdir tpx tpy trot tsc s)))
            = direction (avatarState s))
    \<and> (tpx = None \<longrightarrow>
          posX (avatarState (snd (setAvatarExpression em tn tdir tpx tpy trot tsc s)))
            = posX (avatarState s))
    \<and> (tpy = None \<longrightarrow>
          posY (avatarState (snd (setAvatarExpression em tn tdir tpx tpy trot tsc s)))
            = posY (avatarState s))
    \<and> (trot = None \<longrightarrow>
          rotation (avatarState (snd (setAvatarExpression em tn tdir tpx tpy trot tsc s)))
            = rotation (avatarState s))
    \<and> (tsc = None \<longrightarrow>
          scale (avatarState (snd (setAvatarExpression em tn tdir tpx tpy trot tsc s)))
            = scale (avatarState s))
    \<and> (tdir = Some ''left'' \<longrightarrow>
          direction (avatarState (snd (setAvatarExpression em tn tdir tpx tpy trot tsc s)))
            = DirLeft)
    \<and> (tdir = Some ''right'' \<longrightarrow>
          direction (avatarState (snd (setAvatarExpression em tn tdir tpx tpy trot tsc s)))
            = DirRight)
    \<and> (\<forall>v. tpx = Some v \<longrightarrow>
          posX (avatarState (snd (setAvatarExpression em tn tdir tpx tpy trot tsc s))) = v)
    \<and> (\<forall>v. tpy = Some v \<longrightarrow>
          posY (avatarState (snd (setAvatarExpression em tn tdir tpx tpy trot tsc s))) = v)
    \<and> (\<forall>v. trot = Some v \<longrightarrow>
          rotation (avatarState (snd (setAvatarExpression em tn tdir tpx tpy trot tsc s)))
            = Math_max (Fin (- 30)) (Math_min (Fin 30) v))
    \<and> (\<forall>v. tsc = Some v \<longrightarrow>
          scale (avatarState (snd (setAvatarExpression em tn tdir tpx tpy trot tsc s)))
            = Math_max (Fin (1 / 10)) (Math_min (Fin 3) v)))"
proof (rule conjI; rule impI)
  assume "fst (setExpression em n dir px py rot sc s) = Inr r"
  then obtain nm e where n: "n = Some nm" and e: "em nm = Some e"
    using setExpression_success by blast
  show "(dir = None \<longrightarrow> direction (avatarState (snd (setExpression em n dir px py rot sc s)))
                         = direction (avatarState s))
    \<and> (px = None \<longrightarrow> posX (avatarState (snd (setExpression em n dir px py rot sc s)))
                         = posX (avatarState s))
    \<and> (py = None \<longrightarrow> posY (avatarState (snd (setExpression em n dir px py rot sc s)))
                         = posY (avatarState s))
    \<and> (rot = None \<longrightarrow> rotation (avatarState (snd (setExpression em n dir px py rot sc s)))
                         = rotation (avatarState s))
    \<and> (sc = None \<longrightarrow> scale (avatarState (snd (setExpression em n dir px py rot sc s)))
                         = scale (avatarState s))
    \<and> (dir = Some ''left'' \<longrightarrow>
          direction (avatarState (snd (setExpression em n dir px py rot sc s))) = DirLeft)
    \<and> (dir = Some ''right'' \<longrightarrow>
          direction (avatarState (snd (setExpression em n dir px py rot sc s))) = DirRight)
    \<and> (\<forall>v. px = Some v \<longrightarrow>
          posX (avatarState (snd (setExpression em n dir px py rot sc s))) = parseInt v)
    \<and> (\<forall>v. py = Some v \<longrightarrow>
          posY (avatarState (snd (setExpression em n dir px py rot sc s))) = parseInt v)
    \<and> (\<forall>v. rot = Some v \<longrightarrow>
          rotation (avatarState (snd (setExpression em n dir px py rot sc s)))
            = Math_max (Fin (- 30)) (Math_min (Fin 30) (parseInt v)))
    \<and> (\<forall>v. sc = Some v \<and> \<not> isNaN (parseFloat v) \<longrightarrow>
          scale (avatarState (snd (setExpression em n dir px py rot sc s)))
            = Math_max (Fin (1 / 10)) (Math_min (Fin 3) (parseFloat v)))"
    unfolding n setExpression_avatarState [of em nm e dir px py rot sc s, OF e] by simp
next
  assume "fst (setAvatarExpression em tn tdir tpx tpy trot tsc s) = Inr tr"
  then obtain e where e: "em tn = Some e"
    using setAvatarExpression_success by blast
  show "(tdir = None \<longrightarrow>
          direction (avatarState (snd (setAvatarExpression em tn tdir tpx tpy trot tsc s)))
            = direction (avatarState s))
    \<and> (tpx = None \<longrightarrow>
          posX (avatarState (snd (setAvatarExpression em tn tdir tpx tpy trot tsc s)))
            = posX (avatarState s))
    \<and> (tpy = None \<longrightarrow>
          posY (avatarState (snd (setAvatarExpression em tn tdir tpx tpy trot tsc s)))
            = posY (avatarState s))
    \<and> (trot = None \<longrightarrow>
          rotation (avatarState (snd (setAvatarExpression em tn tdir tpx tpy trot tsc s)))
            = rotation (avatarState s))
    \<and> (tsc = None \<longrightarrow>
          scale (avatarState (snd (setAvatarExpression em tn tdir tpx tpy trot tsc s)))
            = scale (avatarState s))
    \<and> (tdir = Some ''left'' \<longrightarrow>
          direction (avatarState (snd (setAvatarExpression em tn tdir tpx tpy trot tsc s)))
            = DirLeft)
    \<and> (tdir = Some ''right'' \<longrightarrow>
          direction (avatarState (snd (setAvatarExpression em tn tdir tpx tpy trot tsc s)))
            = DirRight)
    \<and> (\<forall>v. tpx = Some v \<longrightarrow>
          posX (avatarState (snd (setAvatarExpression em tn tdir tpx tpy trot tsc s))) = v)
    \<and> (\<forall>v. tpy = Some v \<longrightarrow>
          posY (avatarState (snd (setAvatarExpression em tn tdir tpx tpy trot tsc s))) = v)
    \<and> (\<forall>v. trot = Some v \<longrightarrow>
          rotation (avatarState (snd (setAvatarExpression em tn tdir tpx tpy trot tsc s)))
            = Math_max (Fin (- 30)) (Math_min (Fin 30) v))
    \<and> (\<forall>v. tsc = Some v \<longrightarrow>
          scale (avatarState (snd (setAvatarExpression em tn tdir tpx tpy trot tsc s)))
            = Math_max (Fin (1 / 10)) (Math_min (Fin 3) v))"
    unfolding setAvatarExpression_avatarState [of em tn e tdir tpx tpy trot tsc s, OF e] by simp
qed

lemma parse_examples:
  "parseInt ''50'' = Fin 50"
  "parseInt ''-3'' = Fin (- 3)"
  "parseInt ''45'' = Fin 45"
  "parseInt ''abc'' = NaN"
  "parseInt [] = NaN"
  "parseFloat ''0.5'' = Fin (1 / 2)"
  "parseFloat ''big'' = NaN"
  by (simp_all add: parseInt_def parseFloat_def isWhiteSpace_def isDigit_def decimalValue_def
      digitVal_def scale10_def)

lemma clamp_examples:
  "Math_max (Fin (- 30)) (Math_min (Fin 30) (Fin 45)) = Fin 30"
  "Math_max (Fin (- 30)) (Math_min (Fin 30) (Fin (- 80))) = Fin (- 30)"
  "Math_max (Fin (1 / 10)) (Math_min (Fin 3) (Fin (1 / 2))) = Fin (1 / 2)"
  "Math_max (Fin (1 / 10)) (Math_min (Fin 3) (Fin 5)) = Fin 3"
  by (simp_all add: Math_max_def Math_min_def)

text \<open>
  The MCP module merges a call into its own copy of the avatar state and hands the copy
  to \<open>handleExpressionUpdate\<close>, which replaces the store's state by it. When the copy
  agrees with the store, the store keeps the fields the call did not supply, and the
  two agree again afterwards.
\<close>

lemma mcpSetAvatarExpression_in_sync:
  assumes "em n = Some e" and "mcpAvatarState m = avatarState s"
  shows "avatarState (snd (snd (mcpSetAvatarExpression em n dir px py rot sc (m, s)))) =
     \<lparr>direction = (case dir of None \<Rightarrow> direction (avatarState s) | Some d \<Rightarrow> d),
      posX = (case px of None \<Rightarrow> posX (avatarState s) | Some v \<Rightarrow> v),
      posY = (case py of None \<Rightarrow> posY (avatarState s) | Some v \<Rightarrow> v),
      rotation = (case rot of None \<Rightarrow> rotation (avatarState s)
                  | Some v \<Rightarrow> Math_max (Fin (- 30)) (Math_min (Fin 30) v)),
      scale = (case sc of None \<Rightarrow> scale (avatarState s)
               | Some v \<Rightarrow> Math_max (Fin (1 / 10)) (Math_min (Fin 3) v))\<rparr>"
    and "mcpAvatarState (fst (snd (mcpSetAvatarExpression em n dir px py rot sc (m, s))))
           = avatarState (snd (snd (mcpSetAvatarExpression em n dir px py rot sc (m, s))))"
  using assms
  by (simp_all add: mcpSetAvatarExpression_def handleExpressionUpdate_def Let_def
      split: option.splits)

text \<open>
  Claim C7: every successful set-expression call keeps the fields it did not supply.
  The MCP tool does not, once its copy and the store disagree: after
  \<^verbatim>\<open>/api/set-expression?name=joyful&pos_x=50\<close> the store's \<^verbatim>\<open>posX\<close> is 50; the tool
  call \<^verbatim>\<open>setAvatarExpression({name: 'sad'})\<close>, which supplies no \<^verbatim>\<open>posX\<close>, succeeds and
  leaves the store's \<^verbatim>\<open>posX\<close> at the module's 0.
\<close>

theorem C7_mcp_call_resets_unsupplied_field:
  "fst (setExpression exampleCatalog (Some ''joyful'') None (Some ''50'') None None None
          initialServerState)
     = Inr \<lparr>entry = Entry \<lparr>name = ''joyful'', imageUrl = ''/images/joyful.png'',
                            description = ''Happy and celebratory expression'',
                            useCases = []\<rparr>,
            visual = \<lparr>direction = DirRight, posX = Fin 50, posY = Fin 0, rotation = Fin 0,
                       scale = Fin 1\<rparr>,
            success = True\<rparr>
   \<and> posX (avatarState (snd (setExpression exampleCatalog (Some ''joyful'') None (Some ''50'')
        None None None initialServerState))) = Fin 50
   \<and> fst (mcpSetAvatarExpression exampleCatalog ''sad'' None None None None None
          (initialMcpState,
           snd (setExpression exampleCatalog (Some ''joyful'') None (Some ''50'') None None None
                  initialServerState)))
     = ExpressionSetText ''sad''
   \<and> posX (avatarState (snd (snd (mcpSetAvatarExpression exampleCatalog ''sad'' None None None
        None None
        (initialMcpState,
         snd (setExpression exampleCatalog (Some ''joyful'') None (Some ''50'') None None None
                initialServerState)))))) = Fin 0"
  by (simp add: setExpression_def mcpSetAvatarExpression_def handleExpressionUpdate_def
      exampleCatalog_simps initialMcpState_def initialServerState_def initialAvatarState_def
      parse_examples Let_def)

lemma Math_clamp_NaN:
  "Math_max lo (Math_min hi NaN) = NaN"
  by (simp add: Math_max_def Math_min_def)

lemma parseInt_NaN_iff:
  "parseInt v = NaN \<longleftrightarrow>
     takeWhile isDigit (snd (takeSign (dropWhile isWhiteSpace v))) = []"
  by (simp add: parseInt_def Let_def split: prod.splits)

text \<open>
  Claim C10: a request to \<^verbatim>\<open>GET /api/set-expression\<close> with a valid name whose
  \<^verbatim>\<open>pos_x\<close>, \<^verbatim>\<open>pos_y\<close> or \<^verbatim>\<open>rotation\<close> value does not parse as a number (the parser
  returns NaN, it does not throw) still reports success and stores NaN in that field;
  only \<^verbatim>\<open>scale\<close> is guarded by \<^verbatim>\<open>isNaN\<close> and keeps its value.
\<close>

theorem C10_non_numeric_query_values:
  assumes "em nm = Some e"
  shows "fst (setExpression em (Some nm) dir px py rot sc s)
           = Inr \<lparr>entry = e,
                  visual = avatarState (snd (setExpression em (Some nm) dir px py rot sc s)),
                  success = True\<rparr>
    \<and> (\<forall>v. px = Some v \<and> parseInt v = NaN \<longrightarrow>
          posX (avatarState (snd (setExpression em (Some nm) dir px py rot sc s))) = NaN)
    \<and> (\<forall>v. py = Some v \<and> parseInt v = NaN \<longrightarrow>
          posY (avatarState (snd (setExpression em (Some nm) dir px py rot sc s))) = NaN)
    \<and> (\<forall>v. rot = Some v \<and> parseInt v = NaN \<longrightarrow>
          rotation (avatarState (snd (setExpression em (Some nm) dir px py rot sc s))) = NaN)
    \<and> (\<forall>v. sc = Some v \<and> parseFloat v = NaN \<longrightarrow>
          scale (avatarState (snd (setExpression em (Some nm) dir px py rot sc s)))
            = scale (avatarState s))"
  unfolding setExpression_avatarState [of em nm e dir px py rot sc s, OF assms]
    setExpression_response [of em nm e dir px py rot sc s, OF assms]
  by (simp add: Math_clamp_NaN)

theorem C10_non_numeric_query_values_witness:
  "fst (setExpression exampleCatalog (Some ''joyful'') None (Some ''abc'') (Some [])
          (Some ''abc'') (Some ''big'') movedState)
     = Inr \<lparr>entry = Entry \<lparr>name = ''joyful'', imageUrl = ''/images/joyful.png'',
                      description = ''Happy and celebratory expression'', useCases = []\<rparr>,
            visual = \<lparr>direction = DirLeft, posX = NaN, posY = NaN, rotation = NaN,
                       scale = Fin 2\<rparr>,
            success = True\<rparr>
   \<and> posX (avatarState (snd (setExpression exampleCatalog (Some ''joyful'') None (Some ''abc'')
        (Some []) (Some ''abc'') (Some ''big'') movedState))) = NaN
   \<and> posY (avatarState (snd (setExpression exampleCatalog (Some ''joyful'') None (Some ''abc'')
        (Some []) (Some ''abc'') (Some ''big'') movedState))) = NaN
   \<and> rotation (avatarState (snd (setExpression exampleCatalog (Some ''joyful'') None
        (Some ''abc'') (Some []) (Some ''abc'') (Some ''big'') movedState))) = NaN
   \<and> scale (avatarState (snd (setExpression exampleCatalog (Some ''joyful'') None
        (Some ''abc'') (Some []) (Some ''abc'') (Some ''big'') movedState))) = Fin 2"
proof -
  let ?h = "setExpression exampleCatalog (Some ''joyful'') None (Some ''abc'') (Some [])
              (Some ''abc'') (Some ''big'') movedState"
  have dir: "direction (avatarState (snd ?h)) = DirLeft"
    by (simp add: setExpression_avatarState [of exampleCatalog "''joyful''", OF exampleCatalog_simps(1)]
        movedState_def)
  have rec: "avatarState (snd ?h) =
               \<lparr>direction = direction (avatarState (snd ?h)), posX = posX (avatarState (snd ?h)),
                posY = posY (avatarState (snd ?h)), rotation = rotation (avatarState (snd ?h)),
                scale = scale (avatarState (snd ?h))\<rparr>"
    by simp
  from C10_non_numeric_query_values [of exampleCatalog "''joyful''" _ None "Some ''abc''"
      "Some []" "Some ''abc''" "Some ''big''" movedState, OF exampleCatalog_simps(1)]
  have f: "fst ?h = Inr \<lparr>entry = Entry \<lparr>name = ''joyful'', imageUrl = ''/images/joyful.png'',
                      description = ''Happy and celebratory expression'', useCases = []\<rparr>,
                   visual = avatarState (snd ?h), success = True\<rparr>"
    and x: "posX (avatarState (snd ?h)) = NaN"
    and y: "posY (avatarState (snd ?h)) = NaN"
    and r: "rotation (avatarState (snd ?h)) = NaN"
    and s: "scale (avatarState (snd ?h)) = Fin 2"
    by (simp_all add: parse_examples movedState_def)
  from rec dir x y r s have "avatarState (snd ?h) =
      \<lparr>direction = DirLeft, posX = NaN, posY = NaN, rotation = NaN, scale = Fin 2\<rparr>"
    by simp
  with f x y r s show ?thesis by simp
qed

section \<open>Properties of the batch player\<close>

text \<open>
  Claim C8: a poll whose view carries the batch the player is tracking does nothing:
  no frame is rendered again, and the pending timer is neither cancelled nor armed anew.
\<close>

theorem C8_same_batch_poll_is_noop:
  assumes "batchExpressions d = Some b" and "currentBatchId p = Some (batchId b)"
  shows "playerStep p (Poll (Inr d)) = p"
  using assms by (simp add: updateAvatar_def)

lemma onceBatchInstalled_view:
  "getCurrentExpression exampleCatalog onceBatchInstalled =
     Inr \<lparr>entry = Entry \<lparr>name = ''joyful'', imageUrl = ''/images/joyful.png'',
                    description = ''Happy and celebratory expression'', useCases = []\<rparr>,
          visual = initialAvatarState,
          batchExpressions = Some (exampleBatch False False)\<rparr>"
  by (simp add: getCurrentExpression_def onceBatchInstalled_eq exampleCatalog_simps
      initialAvatarState_def exampleBatch_def)

lemma exampleAction_data [simp]:
  "expressionData (exampleAction n d) =
     \<lparr>entry = Entry \<lparr>name = n, imageUrl = ''/images/'' @ n @ ''.png'',
                description = ''Batch expression'', useCases = []\<rparr>,
      visual = initialAvatarState\<rparr>"
  by (simp add: expressionData_def exampleAction_def num_or_def initialAvatarState_def)

lemma runningPlayer_eq:
  "runningPlayer =
     \<lparr>currentBatch = Some (exampleBatch False False), currentBatchId = Some ''batch-1'',
      currentActionIndex = 0, batchTimeout = Some (Fin 100),
      rendered = [expressionData (exampleAction ''joyful'' 100)]\<rparr>"
  by (simp add: runningPlayer_def onceBatchInstalled_view updateAvatar_def initialPlayer_def
      startBatchExpression_def stopBatchExpression_def processBatchAction_def
      updateSingleExpression_def exampleBatch_def Let_def del: exampleAction_data)

theorem C8_same_batch_poll_is_noop_witness:
  "playerStep runningPlayer (Poll (getCurrentExpression exampleCatalog onceBatchInstalled))
     = runningPlayer"
proof -
  have b: "batchExpressions
             \<lparr>entry = Entry \<lparr>name = ''joyful'', imageUrl = ''/images/joyful.png'',
                    description = ''Happy and celebratory expression'', useCases = []\<rparr>,
              visual = initialAvatarState,
              batchExpressions = Some (exampleBatch False False)\<rparr>
           = Some (exampleBatch False False)"
    by simp
  have i: "currentBatchId runningPlayer = Some (batchId (exampleBatch False False))"
    by (simp add: runningPlayer_eq exampleBatch_def)
  from C8_same_batch_poll_is_noop [OF b i] show ?thesis
    by (simp add: onceBatchInstalled_view)
qed

lemma processBatchAction_shows:
  assumes "currentBatch p = Some b" and "currentActionIndex p < length (actions b)"
  shows "processBatchAction p =
           p\<lparr>rendered := rendered p @ [expressionData (actions b ! currentActionIndex p)],
             batchTimeout := Some (duration (actions b ! currentActionIndex p))\<rparr>"
proof -
  from assms(2) have "actions b \<noteq> []" by auto
  with assms show ?thesis
    by (simp add: processBatchAction_def updateSingleExpression_def Let_def)
qed

lemma timer_advances:
  assumes "currentBatch p = Some b" and "batchTimeout p = Some d"
    and "Suc (currentActionIndex p) < length (actions b)"
  shows "playerStep p (TimerExpired f) =
           p\<lparr>currentActionIndex := Suc (currentActionIndex p),
             rendered := rendered p @ [expressionData (actions b ! Suc (currentActionIndex p))],
             batchTimeout := Some (duration (actions b ! Suc (currentActionIndex p)))\<rparr>"
proof -
  from assms(3) have "actions b \<noteq> []" by auto
  with assms show ?thesis
    by (simp add: timeoutCallback_def processBatchAction_def updateSingleExpression_def Let_def)
qed

lemma timer_wraps_sorted:
  assumes "currentBatch p = Some b" and "batchTimeout p = Some d"
    and "Suc (currentActionIndex p) \<ge> length (actions b)"
    and "loop b" and "random b = Some True" and "f (actions b) \<noteq> []"
  shows "playerStep p (TimerExpired f) =
           p\<lparr>currentBatch := Some (b\<lparr>actions := f (actions b)\<rparr>),
             currentActionIndex := 0,
             rendered := rendered p @ [expressionData (f (actions b) ! 0)],
             batchTimeout := Some (duration (f (actions b) ! 0))\<rparr>"
  using assms
  by (simp add: timeoutCallback_def processBatchAction_def updateSingleExpression_def Let_def)

lemma timer_stops_once:
  assumes "currentBatch p = Some b" and "batchTimeout p = Some d"
    and "Suc (currentActionIndex p) \<ge> length (actions b)" and "\<not> loop b"
  shows "playerStep p (TimerExpired f) =
           p\<lparr>currentActionIndex := Suc (currentActionIndex p), batchTimeout := None,
             currentBatch := None, currentBatchId := None\<rparr>"
  using assms by (simp add: timeoutCallback_def Let_def)

lemma playerRun_Cons: "playerRun p (e # es) = playerRun (playerStep p e) es"
  by (simp add: playerRun_def)

lemma playerRun_Nil: "playerRun p [] = p"
  by (simp add: playerRun_def)

lemma timers_advance:
  assumes "currentBatch p = Some b" and "batchTimeout p \<noteq> None"
    and "currentActionIndex p + length fs < length (actions b)"
  shows "currentBatch (playerRun p (map TimerExpired fs)) = Some b
       \<and> batchTimeout (playerRun p (map TimerExpired fs)) \<noteq> None
       \<and> currentActionIndex (playerRun p (map TimerExpired fs))
           = currentActionIndex p + length fs
       \<and> rendered (playerRun p (map TimerExpired fs))
           = rendered p @ map expressionData
               (take (length fs) (drop (Suc (currentActionIndex p)) (actions b)))"
  using assms
proof (induction fs arbitrary: p)
  case Nil
  then show ?case by (simp add: playerRun_Nil)
next
  case (Cons f fs)
  let ?i = "currentActionIndex p"
  define q where "q = playerStep p (TimerExpired f)"
  from Cons.prems(2) obtain d where d: "batchTimeout p = Some d" by auto
  from Cons.prems(3) have lt: "Suc ?i < length (actions b)" by simp
  have q: "q = p\<lparr>currentActionIndex := Suc ?i,
                  rendered := rendered p @ [expressionData (actions b ! Suc ?i)],
                  batchTimeout := Some (duration (actions b ! Suc ?i))\<rparr>"
    unfolding q_def by (rule timer_advances [OF Cons.prems(1) d lt])
  have qb: "currentBatch q = Some b" using q Cons.prems(1) by simp
  have qt: "batchTimeout q \<noteq> None" using q by simp
  have qi: "currentActionIndex q = Suc ?i" using q by simp
  have qr: "rendered q = rendered p @ [expressionData (actions b ! Suc ?i)]" using q by simp
  have ql: "currentActionIndex q + length fs < length (actions b)"
    using qi Cons.prems(3) by simp
  note ih = Cons.IH [OF qb qt ql]
  have split: "take (Suc (length fs)) (drop (Suc ?i) (actions b))
                 = actions b ! Suc ?i # take (length fs) (drop (Suc (Suc ?i)) (actions b))"
    using lt by (metis Cons_nth_drop_Suc take_Suc_Cons)
  have run: "playerRun p (map TimerExpired (f # fs)) = playerRun q (map TimerExpired fs)"
    unfolding q_def by (simp add: playerRun_Cons del: playerStep.simps)
  show ?case
    unfolding run using ih by (simp add: qi qr split)
qed

text \<open>
  The cycle that starts at a wrap of a looping batch with \<^verbatim>\<open>random\<close> true shows the array
  the sort returned, element by element and once each: the first expiry wraps and takes
  the sorted array, the others advance through it. Which array the sort returns for its
  always-changing comparator is the browser's matter.
\<close>

lemma cycle_after_wrap_shows_sort_result:
  assumes "currentBatch p = Some b" and "loop b" and "random b = Some True"
    and "f (actions b) \<noteq> []" and "batchTimeout p = Some d"
    and "Suc (currentActionIndex p) \<ge> length (actions b)"
    and "Suc (length fs) = length (f (actions b))"
  shows "rendered (playerRun p (map TimerExpired (f # fs)))
           = rendered p @ map expressionData (f (actions b))"
proof -
  let ?ys = "f (actions b)"
  define q where "q = playerStep p (TimerExpired f)"
  have q: "q = p\<lparr>currentBatch := Some (b\<lparr>actions := ?ys\<rparr>), currentActionIndex := 0,
                  rendered := rendered p @ [expressionData (?ys ! 0)],
                  batchTimeout := Some (duration (?ys ! 0))\<rparr>"
    unfolding q_def
    by (rule timer_wraps_sorted [of p b d f, OF assms(1) assms(5) assms(6) assms(2) assms(3)
          assms(4)])
  have qb: "currentBatch q = Some (b\<lparr>actions := ?ys\<rparr>)" using q by simp
  have qt: "batchTimeout q \<noteq> None" using q by simp
  have qi: "currentActionIndex q = 0" using q by simp
  have qr: "rendered q = rendered p @ [expressionData (?ys ! 0)]" using q by simp
  have ql: "currentActionIndex q + length fs < length (actions (b\<lparr>actions := ?ys\<rparr>))"
    using qi assms(7) by simp
  have run: "playerRun p (map TimerExpired (f # fs)) = playerRun q (map TimerExpired fs)"
    unfolding q_def by (simp add: playerRun_Cons del: playerStep.simps)
  from timers_advance [OF qb qt ql]
  have adv: "rendered (playerRun q (map TimerExpired fs))
          = rendered q @ map expressionData (take (length fs) (drop (Suc 0) ?ys))"
    by (simp add: qi)
  have tl: "take (length fs) (drop (Suc 0) ?ys) = tl ?ys"
    using assms(7) by (simp add: drop_Suc)
  have hd: "?ys ! 0 # tl ?ys = ?ys"
    using assms(4) by (cases ?ys) simp_all
  have "rendered q @ map expressionData (tl ?ys)
          = rendered p @ map expressionData (?ys ! 0 # tl ?ys)"
    by (simp add: qr)
  with adv tl hd run show ?thesis by simp
qed

lemma poll_after_stop_starts_again:
  assumes "batchExpressions d = Some b" and "actions b \<noteq> []" and "currentBatchId p = None"
  shows "playerStep p (Poll (Inr d)) =
           p\<lparr>batchTimeout := Some (duration (actions b ! 0)),
             currentBatch := Some b, currentBatchId := Some (batchId b),
             currentActionIndex := 0,
             rendered := rendered p @ [expressionData (actions b ! 0)]\<rparr>"
  using assms
  by (simp add: updateAvatar_def startBatchExpression_def stopBatchExpression_def
      processBatchAction_def updateSingleExpression_def Let_def)

text \<open>
  Claim C2: once the timer has run past the last action of a batch that does not loop,
  the player stops, and later polls that see the same stored batch do not start it again.
  The timer callback stops the batch by clearing \<^verbatim>\<open>currentBatch\<close> and
  \<^verbatim>\<open>currentBatchId\<close>; the server still holds the batch, so the next poll finds a
  \<^verbatim>\<open>batchId\<close> different from the cleared one and calls \<^verbatim>\<open>startBatchExpression\<close>.
  With the two-action batch: after the poll and two expiries the player is stopped
  (first equation); the next poll of the unchanged store shows the first action again
  and arms its timer (second equation). The lemmas \<open>timer_stops_once\<close> and
  \<open>poll_after_stop_starts_again\<close> give the two steps for any batch.
\<close>

theorem C2_finished_batch_restarts_on_poll:
  "playerRun initialPlayer
     [Poll (getCurrentExpression exampleCatalog onceBatchInstalled),
      TimerExpired (\<lambda>xs. xs), TimerExpired (\<lambda>xs. xs)]
     = \<lparr>currentBatch = None, currentBatchId = None, currentActionIndex = 2,
        batchTimeout = None,
        rendered = [expressionData (exampleAction ''joyful'' 100),
                    expressionData (exampleAction ''sad'' 200)]\<rparr>
   \<and> playerRun initialPlayer
       [Poll (getCurrentExpression exampleCatalog onceBatchInstalled),
        TimerExpired (\<lambda>xs. xs), TimerExpired (\<lambda>xs. xs),
        Poll (getCurrentExpression exampleCatalog onceBatchInstalled)]
     = \<lparr>currentBatch = Some (exampleBatch False False), currentBatchId = Some ''batch-1'',
        currentActionIndex = 0, batchTimeout = Some (Fin 100),
        rendered = [expressionData (exampleAction ''joyful'' 100),
                    expressionData (exampleAction ''sad'' 200),
                    expressionData (exampleAction ''joyful'' 100)]\<rparr>"
  by (simp add: playerRun_def onceBatchInstalled_view updateAvatar_def
      initialPlayer_def startBatchExpression_def stopBatchExpression_def
      processBatchAction_def updateSingleExpression_def timeoutCallback_def exampleBatch_def
      Let_def del: exampleAction_data)

section \<open>Properties of the server machine\<close>









end
